theory Spec2Isabelle
  imports Complex_Main "HOL-Library.AList" "HOL-Library.List_Lexorder" "HOL-Library.Char_ord"
    "HOL-Library.Product_Lexorder"
begin

section \<open>Conventions of the embedding\<close>

text \<open>
  The toolkits of the benchmark are Python classes that mutate an in-memory database
  in place.  Every tool is embedded as a function from its arguments and the database
  before the call to the pair of the database after the call and the outcome, so that
  the database is observable after a raise as well as after a return:
  \<^item> a raise is the outcome \<open>Inl e\<close>, a return is \<open>Inr v\<close>;
  \<^item> a pydantic model is a record, a \<open>Dict[str, V]\<close> is an association list in
    insertion order (\<open>map_of\<close> reads it, \<open>AList.update\<close> is Python's
    \<open>d[k] = v\<close>: it overwrites in place or appends a new key at the end);
  \<^item> \<open>Literal[...]\<close> fields are strings, as they are at run time; where pydantic
    validates a literal (on construction of a model) the embedding has a membership
    test that raises \<open>ValidationError\<close>, which in Python is a subclass of
    \<open>ValueError\<close>;
  \<^item> monetary \<open>float\<close>s are exact rationals and \<open>round(x, 2)\<close> rounds half to
    even at two decimals; binary floating point is not modelled.
\<close>

datatype error =
    ValueError string
  | ValidationError string
  | AssertionError string
  | KeyError string
  | JSONDecodeError string
  | TypeError string

definition round_half_even :: "rat \<Rightarrow> int" where
  "round_half_even x =
     (let f = \<lfloor>x\<rfloor>; d = x - of_int f
      in if d < 1 / 2 then f
         else if 1 / 2 < d then f + 1
         else if even f then f else f + 1)"

definition round2 :: "rat \<Rightarrow> rat" where
  "round2 x = of_int (round_half_even (x * 100)) / 100"

definition keys :: "('k \<times> 'v) list \<Rightarrow> 'k list" where
  "keys d = map fst d"


section \<open>E-commerce domain\<close>

subsection \<open>Data model (ecommerce/data\_model.py)\<close>

record OfferingAttributes =
  oa_hue :: string
  oa_dimension :: string
  oa_fabrication :: string
  oa_pattern :: string

record Offering =
  of_unit_sku :: string
  of_attributes :: OfferingAttributes
  of_in_stock :: bool
  of_unit_price :: rat

record CatalogueGroup =
  cg_title :: string
  cg_group_ref :: string
  cg_offerings :: "(string \<times> Offering) list"

record PersonName_ec =
  pn_given :: string
  pn_family :: string

record Location_ec =
  loc_line1 :: string
  loc_line2 :: string
  loc_municipality :: string
  loc_nation :: string
  loc_region :: string
  loc_postal_code :: string

record FundingSourceMeta =
  fsm_issuer :: string
  fsm_last_digits :: string

record FundingSource =
  fs_origin :: string
  fs_instrument_id :: string
  fs_meta :: FundingSourceMeta

record Account_ec =
  ea_account_key :: string
  ea_person :: PersonName_ec
  ea_location :: Location_ec
  ea_contact_email :: string
  ea_funding_sources :: "(string \<times> FundingSource) list"
  ea_purchases :: "string list"

record SaleLineAttributes =
  sla_volume :: string
  sla_composition :: string
  sla_tint :: string

record SaleLine =
  sl_label :: string
  sl_catalog_ref :: string
  sl_unit_sku :: string
  sl_unit_price :: rat
  sl_attributes :: SaleLineAttributes

record Shipment =
  sh_parcel_codes :: "string list"
  sh_sku_list :: "string list"

record LedgerEntry =
  le_entry_kind :: string
  le_value :: rat
  le_instrument_id :: string

record Sale =
  sale_ref :: string
  sale_account_key :: string
  sale_delivery :: Location_ec
  sale_lines :: "SaleLine list"
  sale_state :: string
  sale_shipments :: "Shipment list"
  sale_ledger :: "LedgerEntry list"

record ECommerceDB =
  catalogue :: "(string \<times> CatalogueGroup) list"
  accounts :: "(string \<times> Account_ec) list"
  sales :: "(string \<times> Sale) list"

subsection \<open>Helpers of ECommerceTools\<close>

definition get_sale :: "ECommerceDB \<Rightarrow> string \<Rightarrow> error + Sale" where
  "get_sale db ref =
     (case map_of (sales db) ref of
        None \<Rightarrow> Inl (ValueError ''Sale not found'')
      | Some s \<Rightarrow> Inr s)"

definition get_account_ec :: "ECommerceDB \<Rightarrow> string \<Rightarrow> error + Account_ec" where
  "get_account_ec db account_key =
     (case map_of (accounts db) account_key of
        None \<Rightarrow> Inl (ValueError ''Account not found'')
      | Some a \<Rightarrow> Inr a)"

definition get_catalogue_group :: "ECommerceDB \<Rightarrow> string \<Rightarrow> error + CatalogueGroup" where
  "get_catalogue_group db group_ref =
     (case map_of (catalogue db) group_ref of
        None \<Rightarrow> Inl (ValueError ''Catalogue group not found'')
      | Some g \<Rightarrow> Inr g)"

definition get_offering :: "ECommerceDB \<Rightarrow> string \<Rightarrow> string \<Rightarrow> error + Offering" where
  "get_offering db group_ref unit_sku =
     (case get_catalogue_group db group_ref of
        Inl e \<Rightarrow> Inl e
      | Inr g \<Rightarrow>
          (case map_of (cg_offerings g) unit_sku of
             None \<Rightarrow> Inl (ValueError ''Offering not found'')
           | Some off \<Rightarrow> Inr off))"

definition get_funding_source ::
  "ECommerceDB \<Rightarrow> string \<Rightarrow> string \<Rightarrow> error + FundingSource" where
  "get_funding_source db account_key instrument_id =
     (case get_account_ec db account_key of
        Inl e \<Rightarrow> Inl e
      | Inr a \<Rightarrow>
          (case map_of (ea_funding_sources a) instrument_id of
             None \<Rightarrow> Inl (ValueError ''Funding source not found'')
           | Some f \<Rightarrow> Inr f))"

subsection \<open>cancel\_pending\_sale\<close>

text \<open>
  The refund loop of \<open>cancel_pending_sale\<close> iterates over \<open>sale.ledger\<close> while it
  appends to that same list, so the iteration also visits the entries it has appended.
  \<open>refund_loop i ledger\<close> is that loop at index \<open>i\<close>.  It ends because every
  appended entry is a refund and a refund appends nothing.
\<close>

definition payments_from :: "nat \<Rightarrow> LedgerEntry list \<Rightarrow> nat" where
  "payments_from i ledger = length (filter (\<lambda>e. le_entry_kind e = ''payment'') (drop i ledger))"

function refund_loop :: "nat \<Rightarrow> LedgerEntry list \<Rightarrow> LedgerEntry list" where
  "refund_loop i ledger =
     (if i < length ledger then
        (if le_entry_kind (ledger ! i) = ''payment'' then
           refund_loop (Suc i)
             (ledger @ [\<lparr>le_entry_kind = ''refund'', le_value = le_value (ledger ! i),
                         le_instrument_id = le_instrument_id (ledger ! i)\<rparr>])
         else refund_loop (Suc i) ledger)
      else ledger)"
  by pat_completeness auto
termination
proof (relation "measure (\<lambda>(i, ledger). 2 * payments_from i ledger + (length ledger - i))")
  show "wf (measure (\<lambda>(i, ledger). 2 * payments_from i ledger + (length ledger - i)))"
    by simp
next
  fix i :: nat and ledger :: "LedgerEntry list"
  assume lt: "i < length ledger" and pay: "le_entry_kind (ledger ! i) = ''payment''"
  let ?r = "\<lparr>le_entry_kind = ''refund'', le_value = le_value (ledger ! i),
              le_instrument_id = le_instrument_id (ledger ! i)\<rparr>"
  have d: "drop i ledger = ledger ! i # drop (Suc i) ledger"
    using lt by (simp add: Cons_nth_drop_Suc)
  have "payments_from i ledger = Suc (payments_from (Suc i) ledger)"
    unfolding payments_from_def using pay by (simp add: d)
  moreover have "payments_from (Suc i) (ledger @ [?r]) = payments_from (Suc i) ledger"
    unfolding payments_from_def using lt by simp
  ultimately show "((Suc i, ledger @ [?r]), (i, ledger))
      \<in> measure (\<lambda>(i, ledger). 2 * payments_from i ledger + (length ledger - i))"
    using lt by simp
next
  fix i :: nat and ledger :: "LedgerEntry list"
  assume lt: "i < length ledger" and npay: "le_entry_kind (ledger ! i) \<noteq> ''payment''"
  have d: "drop i ledger = ledger ! i # drop (Suc i) ledger"
    using lt by (simp add: Cons_nth_drop_Suc)
  have "payments_from i ledger = payments_from (Suc i) ledger"
    unfolding payments_from_def using npay by (simp add: d)
  then show "((Suc i, ledger), (i, ledger))
      \<in> measure (\<lambda>(i, ledger). 2 * payments_from i ledger + (length ledger - i))"
    using lt by simp
qed

declare refund_loop.simps [simp del]

definition cancel_pending_sale ::
  "string \<Rightarrow> string \<Rightarrow> ECommerceDB \<Rightarrow> ECommerceDB \<times> (error + Sale)" where
  "cancel_pending_sale ref reason db =
     (case get_sale db ref of
        Inl e \<Rightarrow> (db, Inl e)
      | Inr sale \<Rightarrow>
          if sale_state sale \<noteq> ''pending'' then
            (db, Inl (ValueError ''Non-pending sale cannot be cancelled''))
          else if reason \<noteq> ''no longer needed'' \<and> reason \<noteq> ''ordered by mistake'' then
            (db, Inl (ValueError ''Invalid reason''))
          else
            let sale' = sale\<lparr>sale_ledger := refund_loop 0 (sale_ledger sale),
                              sale_state := ''cancelled''\<rparr>
            in (db\<lparr>sales := AList.update ref sale' (sales db)\<rparr>, Inr sale'))"

subsection \<open>exchange\_delivered\_sale\_lines\<close>

fun exchange_diff ::
  "ECommerceDB \<Rightarrow> Sale \<Rightarrow> (string \<times> string) list \<Rightarrow> rat \<Rightarrow> error + rat" where
  "exchange_diff db sale [] diff_price = Inr diff_price"
| "exchange_diff db sale ((old_sku, new_sku) # rest) diff_price =
     (case List.find (\<lambda>ln. sl_unit_sku ln = old_sku) (sale_lines sale) of
        None \<Rightarrow> Inl (ValueError (''Item '' @ old_sku @ '' not found''))
      | Some line \<Rightarrow>
          (case get_offering db (sl_catalog_ref line) new_sku of
             Inl e \<Rightarrow> Inl e
           | Inr new_offering \<Rightarrow>
               if \<not> of_in_stock new_offering then
                 Inl (ValueError (''New item '' @ new_sku @ '' not found or not in stock''))
               else
                 exchange_diff db sale rest
                   (diff_price + (of_unit_price new_offering - sl_unit_price line))))"

definition exchange_delivered_sale_lines ::
  "string \<Rightarrow> string list \<Rightarrow> string list \<Rightarrow> string \<Rightarrow> ECommerceDB
     \<Rightarrow> ECommerceDB \<times> (error + Sale)" where
  "exchange_delivered_sale_lines ref unit_skus_old unit_skus_new instrument_id db =
     (case get_sale db ref of
        Inl e \<Rightarrow> (db, Inl e)
      | Inr sale \<Rightarrow>
          if sale_state sale \<noteq> ''delivered'' then
            (db, Inl (ValueError ''Non-delivered sale cannot be exchanged''))
          else if length unit_skus_old \<noteq> length unit_skus_new then
            (db, Inl (ValueError ''The number of items to be exchanged should match''))
          else
            (case List.find
                    (\<lambda>sku. count_list (map sl_unit_sku (sale_lines sale)) sku
                              < count_list unit_skus_old sku) unit_skus_old of
               Some sku \<Rightarrow> (db, Inl (ValueError (''Number of '' @ sku @ '' not found'')))
             | None \<Rightarrow>
                 (case get_funding_source db (sale_account_key sale) instrument_id of
                    Inl e \<Rightarrow> (db, Inl e)
                  | Inr _ \<Rightarrow>
                      (case exchange_diff db sale (zip unit_skus_old unit_skus_new) 0 of
                         Inl e \<Rightarrow> (db, Inl e)
                       | Inr diff_price \<Rightarrow>
                           let diff_price' = round2 diff_price;
                               sale' = sale\<lparr>sale_state := ''exchange requested''\<rparr>
                           in (db\<lparr>sales := AList.update ref sale' (sales db)\<rparr>,
                               Inr sale')))))"

subsection \<open>Python values shared by the toolkits\<close>


datatype json =
    JNull
  | JBool bool
  | JNumber rat
  | JString string
  | JArray "json list"
  | JObject "(string \<times> json) list"






subsection \<open>GENERIC tools\<close>



subsection \<open>A concrete e-commerce database\<close>

definition ex_location :: Location_ec where
  "ex_location = \<lparr>loc_line1 = ''1 Main St'', loc_line2 = [], loc_municipality = ''Springfield'',
     loc_nation = ''USA'', loc_region = ''IL'', loc_postal_code = ''62701''\<rparr>"

definition ex_offering :: "string \<Rightarrow> bool \<Rightarrow> rat \<Rightarrow> Offering" where
  "ex_offering sku stock price =
     \<lparr>of_unit_sku = sku,
      of_attributes = \<lparr>oa_hue = ''red'', oa_dimension = ''M'', oa_fabrication = ''cotton'',
                       oa_pattern = ''plain''\<rparr>,
      of_in_stock = stock, of_unit_price = price\<rparr>"

definition ex_group :: CatalogueGroup where
  "ex_group = \<lparr>cg_title = ''T-Shirt'', cg_group_ref = ''G1'',
     cg_offerings = [(''skuA'', ex_offering ''skuA'' True 20), (''skuB'', ex_offering ''skuB'' True 25)]\<rparr>"

definition ex_account_ec :: Account_ec where
  "ex_account_ec = \<lparr>ea_account_key = ''A1'',
     ea_person = \<lparr>pn_given = ''Ann'', pn_family = ''Lee''\<rparr>,
     ea_location = ex_location, ea_contact_email = ''ann@example.com'',
     ea_funding_sources =
       [(''card1'', \<lparr>fs_origin = ''credit_card'', fs_instrument_id = ''card1'',
                    fs_meta = \<lparr>fsm_issuer = ''visa'', fsm_last_digits = ''1234''\<rparr>\<rparr>)],
     ea_purchases = [''S1'', ''S2'']\<rparr>"

definition ex_sale :: "string \<Rightarrow> string \<Rightarrow> Sale" where
  "ex_sale ref st =
     \<lparr>sale_ref = ref, sale_account_key = ''A1'', sale_delivery = ex_location,
      sale_lines = [\<lparr>sl_label = ''T-Shirt'', sl_catalog_ref = ''G1'', sl_unit_sku = ''skuA'',
                     sl_unit_price = 20,
                     sl_attributes = \<lparr>sla_volume = ''M'', sla_composition = ''cotton'',
                                       sla_tint = ''red''\<rparr>\<rparr>],
      sale_state = st,
      sale_shipments = [\<lparr>sh_parcel_codes = [''P1''], sh_sku_list = [''skuA'']\<rparr>],
      sale_ledger = [\<lparr>le_entry_kind = ''payment'', le_value = 20, le_instrument_id = ''card1''\<rparr>]\<rparr>"

definition ex_ecommerce_db :: ECommerceDB where
  "ex_ecommerce_db =
     \<lparr>catalogue = [(''G1'', ex_group)],
      accounts = [(''A1'', ex_account_ec)],
      sales = [(''S1'', ex_sale ''S1'' ''delivered''), (''S2'', ex_sale ''S2'' ''pending'')]\<rparr>"

section \<open>Travel agency domain\<close>

subsection \<open>Data model (travel/data\_model.py)\<close>

record PersonName =
  pn_first_name :: string
  pn_last_name :: string

record PostalAddress =
  pa_street :: string
  pa_city :: string
  pa_state :: string
  pa_country :: string
  pa_zip :: string

record ContactInfo =
  ci_email :: string
  ci_phone :: string

record PassportInfo =
  pp_number :: string
  pp_nationality :: string
  pp_expiry :: string

record TravelerPreferences =
  tp_dietary :: "string option"
  tp_accessibility :: "string option"
  tp_room_type :: "string option"
  tp_bed_preference :: "string option"
  tp_other :: "string option"

record PaymentExtraInfo =
  pei_brand :: "string option"
  pei_last_four :: "string option"

record TravelerPaymentMethod =
  tpm_source :: string
  tpm_payment_method_id :: string
  tpm_extra_info :: "PaymentExtraInfo option"

record Companion =
  co_first_name :: string
  co_last_name :: string
  co_dob :: string
  co_passport :: "PassportInfo option"

record BookingTravelerInfo =
  bti_first_name :: string
  bti_last_name :: string
  bti_dob :: string

record RoomingInfo =
  ri_room_type :: string
  ri_occupancy :: int

record BookingAddOn =
  bao_type :: string
  bao_description :: string
  bao_price :: rat

record BookingPayment =
  bp_payment_id :: string
  bp_amount :: rat

record Location =
  lo_city :: string
  lo_country :: string

record PackageDeparture =
  pd_status :: string
  pd_base_price :: rat
  pd_currency :: string
  pd_available_slots :: int
  pd_early_bird_deadline :: string

record ItineraryItem =
  it_day :: int
  it_title :: string
  it_description :: string
  it_location :: Location
  it_included_meals :: "string list"

record Accommodation =
  ac_name :: string
  ac_type :: string
  ac_location :: Location
  ac_nights :: int

record TransportationInfo =
  ti_international :: string
  ti_domestic :: string
  ti_ground :: string

record Activity =
  av_name :: string
  av_description :: string
  av_day :: int

record PackagePolicies =
  pol_cancellation_policy :: string
  pol_change_policy :: string
  pol_refund_policy :: string

record Package =
  pk_package_id :: string
  pk_name :: string
  pk_category :: string
  pk_description :: string
  pk_destinations :: "Location list"
  pk_duration_days :: int
  pk_departure_points :: "Location list"
  pk_departures :: "(string \<times> PackageDeparture) list"
  pk_itinerary :: "ItineraryItem list"
  pk_inclusions :: "string list"
  pk_exclusions :: "string list"
  pk_accommodations :: "Accommodation list"
  pk_transportation :: TransportationInfo
  pk_activities :: "Activity list"
  pk_policies :: PackagePolicies
  pk_notes :: "string option"
  pk_managed_by_agents :: "string list"

record Booking =
  bk_booking_id :: string
  bk_package_id :: string
  bk_agent_id :: string
  bk_booking_date :: string
  bk_departure_date :: string
  bk_status :: string
  bk_travelers :: "BookingTravelerInfo list"
  bk_rooming :: RoomingInfo
  bk_add_ons :: "BookingAddOn list"
  bk_insurance :: "string option"
  bk_payment_history :: "BookingPayment list"
  bk_total_price :: rat
  bk_notes :: "string option"

record Traveler =
  tr_traveler_id :: string
  tr_name :: PersonName
  tr_address :: PostalAddress
  tr_contact :: ContactInfo
  tr_dob :: string
  tr_passport :: "PassportInfo option"
  tr_preferences :: "TravelerPreferences option"
  tr_payment_methods :: "(string \<times> TravelerPaymentMethod) list"
  tr_saved_companions :: "Companion list"
  tr_memberships :: "string list"
  tr_bookings :: "Booking list"

record AgencyInfo =
  ai_name :: string
  ai_address :: PostalAddress

record AvailabilityDay =
  ad_slots :: "string list"
  ad_timezone :: string

record Agent =
  ag_agent_id :: string
  ag_name :: PersonName
  ag_contact :: ContactInfo
  ag_agency :: AgencyInfo
  ag_certifications :: "string list"
  ag_languages :: "string list"
  ag_regions_of_expertise :: "string list"
  ag_commission_rate :: rat
  ag_employment_status :: string
  ag_assigned_travelers :: "string list"
  ag_managed_packages :: "string list"
  ag_bookings_handled :: "string list"
  ag_availability :: "(string \<times> AvailabilityDay) list"
  ag_notes :: "string option"

record TravelAgencyDB =
  packages :: "(string \<times> Package) list"
  travelers :: "(string \<times> Traveler) list"
  agents :: "(string \<times> Agent) list"

subsection \<open>Helpers of TravelAgencyTools\<close>

text \<open>
  \<open>_get_booking\<close> walks the travelers in dictionary order and each traveler's bookings
  in list order and returns the first booking with the requested id, as a reference
  into the database.  \<open>locate_booking\<close> computes where that booking is stored (the
  position of its traveler and its position in that traveler's list), so that the
  in-place assignments of the tools can be written back to the same place.
\<close>

fun first_index :: "('a \<Rightarrow> bool) \<Rightarrow> 'a list \<Rightarrow> nat option" where
  "first_index P [] = None"
| "first_index P (x # xs) = (if P x then Some 0 else map_option Suc (first_index P xs))"

fun locate_booking :: "(string \<times> Traveler) list \<Rightarrow> string \<Rightarrow> (nat \<times> nat) option" where
  "locate_booking [] booking_id = None"
| "locate_booking (kt # rest) booking_id =
     (case first_index (\<lambda>b. bk_booking_id b = booking_id) (tr_bookings (snd kt)) of
        Some j \<Rightarrow> Some (0, j)
      | None \<Rightarrow> map_option (\<lambda>(i, j). (Suc i, j)) (locate_booking rest booking_id))"

definition booking_at :: "(string \<times> Traveler) list \<Rightarrow> nat \<times> nat \<Rightarrow> Booking" where
  "booking_at ts p = tr_bookings (snd (ts ! fst p)) ! snd p"

definition put_booking ::
  "(string \<times> Traveler) list \<Rightarrow> nat \<times> nat \<Rightarrow> Booking \<Rightarrow> (string \<times> Traveler) list" where
  "put_booking ts p b =
     ts[fst p := (fst (ts ! fst p),
                  (snd (ts ! fst p))\<lparr>tr_bookings := (tr_bookings (snd (ts ! fst p)))[snd p := b]\<rparr>)]"

definition get_booking :: "TravelAgencyDB \<Rightarrow> string \<Rightarrow> error + (Traveler \<times> Booking)" where
  "get_booking db booking_id =
     (case locate_booking (travelers db) booking_id of
        None \<Rightarrow> Inl (ValueError (''Booking '' @ booking_id @ '' not found''))
      | Some p \<Rightarrow> Inr (snd (travelers db ! fst p), booking_at (travelers db) p))"

definition get_package :: "TravelAgencyDB \<Rightarrow> string \<Rightarrow> error + Package" where
  "get_package db package_id =
     (case map_of (packages db) package_id of
        None \<Rightarrow> Inl (ValueError (''Package '' @ package_id @ '' not found''))
      | Some p \<Rightarrow> Inr p)"

definition get_new_booking_id :: "TravelAgencyDB \<Rightarrow> error + string" where
  "get_new_booking_id db =
     (case List.find (\<lambda>booking_id. locate_booking (travelers db) booking_id = None)
             [''TAU001'', ''TAU002'', ''TAU003''] of
        Some booking_id \<Rightarrow> Inr booking_id
      | None \<Rightarrow> Inl (ValueError ''Too many bookings created''))"

subsection \<open>cancel\_booking\<close>

definition refund_of :: "BookingPayment \<Rightarrow> BookingPayment" where
  "refund_of p = \<lparr>bp_payment_id = bp_payment_id p, bp_amount = - bp_amount p\<rparr>"

definition restore_slots :: "Package \<Rightarrow> string \<Rightarrow> int \<Rightarrow> Package" where
  "restore_slots package departure_date n =
     (case map_of (pk_departures package) departure_date of
        None \<Rightarrow> package
      | Some dep \<Rightarrow>
          package\<lparr>pk_departures :=
            AList.update departure_date
              (dep\<lparr>pd_available_slots := pd_available_slots dep + n\<rparr>)
              (pk_departures package)\<rparr>)"

definition cancel_booking ::
  "string \<Rightarrow> TravelAgencyDB \<Rightarrow> TravelAgencyDB \<times> (error + Booking)" where
  "cancel_booking booking_id db =
     (case locate_booking (travelers db) booking_id of
        None \<Rightarrow> (db, Inl (ValueError (''Booking '' @ booking_id @ '' not found'')))
      | Some p \<Rightarrow>
          let booking = booking_at (travelers db) p in
          (case get_package db (bk_package_id booking) of
             Inl e \<Rightarrow> (db, Inl e)
           | Inr package \<Rightarrow>
               let booking' = booking\<lparr>bk_payment_history :=
                                  bk_payment_history booking
                                    @ map refund_of (bk_payment_history booking),
                                bk_status := ''cancelled''\<rparr>;
                   package' = restore_slots package (bk_departure_date booking')
                                (int (length (bk_travelers booking')))
               in (db\<lparr>travelers := put_booking (travelers db) p booking',
                      packages := AList.update (bk_package_id booking) package' (packages db)\<rparr>,
                   Inr booking')))"

section \<open>Railway domain\<close>

subsection \<open>Data model (railway/data\_model.py)\<close>

record Name =
  nm_first_name :: string
  nm_last_name :: string

record Address =
  ad_address1 :: string
  ad_address2 :: "string option"
  ad_city :: string
  ad_country :: string
  ad_state :: string
  ad_zip :: string

record Passenger =
  ps_first_name :: string
  ps_last_name :: string
  ps_dob :: string

record RailPayment =
  rp_payment_id :: string
  rp_amount :: rat

record CardExtraInfo_rail =
  cei_brand :: string
  cei_last_four :: string

record CardPayment =
  cp_source :: string
  cp_id :: string
  cp_extra_info :: CardExtraInfo_rail

record WalletExtraInfo =
  we_amount :: int

record WalletPayment =
  wp_source :: string
  wp_id :: string
  wp_extra_info :: WalletExtraInfo

record OtherPayment =
  op_source :: string
  op_id :: string
  op_extra_info :: "(string \<times> string) list"

datatype PaymentMethodRail =
    Card CardPayment
  | Wallet WalletPayment
  | Other OtherPayment

record TrainDateStatusOnTime =
  ot_status :: string
  ot_platform :: string
  ot_actual_departure_time_local :: "string option"
  ot_actual_arrival_time_local :: "string option"

record TrainDateStatusDelayed =
  dl_status :: string
  dl_platform :: string
  dl_actual_departure_time_local :: "string option"
  dl_actual_arrival_time_local :: "string option"

record TrainDateStatusCancelled =
  cn_status :: string
  cn_platform :: "string option"
  cn_actual_departure_time_local :: "string option"
  cn_actual_arrival_time_local :: "string option"

datatype TrainDateStatus =
    OnTime TrainDateStatusOnTime
  | Delayed TrainDateStatusDelayed
  | Cancelled TrainDateStatusCancelled

record Train =
  tn_origin :: string
  tn_destination :: string
  tn_train_number :: string
  tn_train_name :: string
  tn_service_type :: string
  tn_scheduled_departure_time_local :: string
  tn_scheduled_arrival_time_local :: string
  tn_dates :: "(string \<times> TrainDateStatus) list"

record Railcard =
  rc_type :: string
  rc_number :: string
  rc_expiry :: string

record RailUser =
  ru_user_id :: string
  ru_name :: Name
  ru_address :: Address
  ru_email :: string
  ru_dob :: string
  ru_payment_methods :: "(string \<times> PaymentMethodRail) list"
  ru_saved_passengers :: "Passenger list"
  ru_membership :: string
  ru_railcards :: "Railcard list"
  ru_reservations :: "string list"

record ReservationTrainSegment =
  seg_origin :: string
  seg_destination :: string
  seg_train_number :: string
  seg_date :: string
  seg_coach :: string
  seg_seat_numbers :: "string list"
  seg_price :: int

record TrainReservation =
  rs_reservation_id :: string
  rs_user_id :: string
  rs_origin :: string
  rs_destination :: string
  rs_trip_type :: string
  rs_trains :: "ReservationTrainSegment list"
  rs_passengers :: "Passenger list"
  rs_payment_history :: "RailPayment list"
  rs_created_at :: string
  rs_total_bags :: int
  rs_bikes :: int
  rs_meal_preference :: string
  rs_insurance :: string
  rs_pnr :: string
  rs_status :: string

record TrainDB =
  trains :: "(string \<times> Train) list"
  users :: "(string \<times> RailUser) list"
  reservations :: "(string \<times> TrainReservation) list"

subsection \<open>cancel\_reservation\<close>

definition get_reservation :: "TrainDB \<Rightarrow> string \<Rightarrow> error + TrainReservation" where
  "get_reservation db reservation_id =
     (case map_of (reservations db) reservation_id of
        None \<Rightarrow> Inl (ValueError (''Reservation '' @ reservation_id @ '' not found''))
      | Some r \<Rightarrow> Inr r)"

definition rail_refund_of :: "RailPayment \<Rightarrow> RailPayment" where
  "rail_refund_of payment = \<lparr>rp_payment_id = rp_payment_id payment, rp_amount = - rp_amount payment\<rparr>"

definition cancel_reservation ::
  "string \<Rightarrow> TrainDB \<Rightarrow> TrainDB \<times> (error + TrainReservation)" where
  "cancel_reservation reservation_id db =
     (case get_reservation db reservation_id of
        Inl e \<Rightarrow> (db, Inl e)
      | Inr reservation \<Rightarrow>
          let reservation' = reservation\<lparr>rs_payment_history :=
                                 rs_payment_history reservation
                                   @ map rail_refund_of (rs_payment_history reservation),
                               rs_status := ''cancelled''\<rparr>
          in (db\<lparr>reservations := AList.update reservation_id reservation' (reservations db)\<rparr>,
              Inr reservation'))"

subsection \<open>A concrete travel and a concrete railway database\<close>

definition ex_package :: "int \<Rightarrow> Package" where
  "ex_package slots =
     \<lparr>pk_package_id = ''PK1'', pk_name = ''Alps'', pk_category = ''adventure'',
      pk_description = ''Hiking week'',
      pk_destinations = [\<lparr>lo_city = ''Chamonix'', lo_country = ''France''\<rparr>],
      pk_duration_days = 7,
      pk_departure_points = [\<lparr>lo_city = ''Geneva'', lo_country = ''Switzerland''\<rparr>],
      pk_departures =
        [(''24-06-01'', \<lparr>pd_status = ''available'', pd_base_price = 250, pd_currency = ''EUR'',
                         pd_available_slots = slots, pd_early_bird_deadline = ''24-03-01''\<rparr>)],
      pk_itinerary = [], pk_inclusions = [''guide''], pk_exclusions = [''flights''],
      pk_accommodations = [],
      pk_transportation = \<lparr>ti_international = ''none'', ti_domestic = ''bus'', ti_ground = ''bus''\<rparr>,
      pk_activities = [],
      pk_policies = \<lparr>pol_cancellation_policy = ''flexible'', pol_change_policy = ''flexible'',
                      pol_refund_policy = ''full''\<rparr>,
      pk_notes = None, pk_managed_by_agents = [''AG1'']\<rparr>"

definition ex_booking :: "string \<Rightarrow> rat list \<Rightarrow> Booking" where
  "ex_booking st amounts =
     \<lparr>bk_booking_id = ''TAU001'', bk_package_id = ''PK1'', bk_agent_id = ''AG1'',
      bk_booking_date = ''24-05-15'', bk_departure_date = ''24-06-01'', bk_status = st,
      bk_travelers = [\<lparr>bti_first_name = ''Ann'', bti_last_name = ''Lee'', bti_dob = ''90-01-01''\<rparr>],
      bk_rooming = \<lparr>ri_room_type = ''single'', ri_occupancy = 1\<rparr>,
      bk_add_ons = [], bk_insurance = None,
      bk_payment_history = map (\<lambda>a. \<lparr>bp_payment_id = ''cc1'', bp_amount = a\<rparr>) amounts,
      bk_total_price = 250, bk_notes = None\<rparr>"

definition ex_traveler :: "Booking list \<Rightarrow> Traveler" where
  "ex_traveler bs =
     \<lparr>tr_traveler_id = ''T1'',
      tr_name = \<lparr>pn_first_name = ''Ann'', pn_last_name = ''Lee''\<rparr>,
      tr_address = \<lparr>pa_street = ''1 Main St'', pa_city = ''Springfield'', pa_state = ''IL'',
                     pa_country = ''USA'', pa_zip = ''62701''\<rparr>,
      tr_contact = \<lparr>ci_email = ''ann@example.com'', ci_phone = ''555-0100''\<rparr>,
      tr_dob = ''90-01-01'', tr_passport = None, tr_preferences = None,
      tr_payment_methods =
        [(''cc1'', \<lparr>tpm_source = ''credit_card'', tpm_payment_method_id = ''cc1'',
                    tpm_extra_info = None\<rparr>)],
      tr_saved_companions = [], tr_memberships = [], tr_bookings = bs\<rparr>"

definition ex_travel_db :: "int \<Rightarrow> Booking list \<Rightarrow> TravelAgencyDB" where
  "ex_travel_db slots bs =
     \<lparr>packages = [(''PK1'', ex_package slots)],
      travelers = [(''T1'', ex_traveler bs)],
      agents = []\<rparr>"

definition ex_reservation :: "string \<Rightarrow> rat list \<Rightarrow> TrainReservation" where
  "ex_reservation st amounts =
     \<lparr>rs_reservation_id = ''TRN001'', rs_user_id = ''U1'', rs_origin = ''NYC'',
      rs_destination = ''BOS'', rs_trip_type = ''one_way'',
      rs_trains = [\<lparr>seg_origin = ''NYC'', seg_destination = ''BOS'', seg_train_number = ''HS1'',
                     seg_date = ''2024-06-01'', seg_coach = ''A1'', seg_seat_numbers = [''21''],
                     seg_price = 90\<rparr>],
      rs_passengers = [\<lparr>ps_first_name = ''Ann'', ps_last_name = ''Lee'', ps_dob = ''1990-01-01''\<rparr>],
      rs_payment_history = map (\<lambda>a. \<lparr>rp_payment_id = ''card_1'', rp_amount = a\<rparr>) amounts,
      rs_created_at = ''2024-05-15T15:00:00'', rs_total_bags = 1, rs_bikes = 0,
      rs_meal_preference = ''none'', rs_insurance = ''no'', rs_pnr = ''PNR1AA'', rs_status = st\<rparr>"

definition ex_train_db :: "TrainReservation \<Rightarrow> TrainDB" where
  "ex_train_db r = \<lparr>trains = [], users = [], reservations = [(''TRN001'', r)]\<rparr>"

definition ex_travel_db_no_package :: "Booking list \<Rightarrow> TravelAgencyDB" where
  "ex_travel_db_no_package bs =
     \<lparr>packages = [], travelers = [(''T1'', ex_traveler bs)], agents = []\<rparr>"

section \<open>Bank domain\<close>

subsection \<open>Data model (bank/data\_model.py)\<close>

record BankAddress =
  ba_address1 :: string
  ba_address2 :: string
  ba_city :: string
  ba_state :: string
  ba_zip :: string
  ba_country :: string



record AccountBalance =
  bal_current :: rat
  bal_available :: rat
  bal_on_hold :: rat

record AccountFeatures =
  af_checks_enabled :: bool
  af_atm_access :: bool
  af_online_banking :: bool

record Account =
  acc_account_id :: string
  acc_type :: string
  acc_currency :: string
  acc_status :: string
  acc_account_number_masked :: string
  acc_routing_number :: string
  acc_balance :: AccountBalance
  acc_interest_rate_apr :: "rat option"
  acc_overdraft_limit :: "rat option"
  acc_opened_at :: string
  acc_features :: AccountFeatures

record CardExtraInfo =
  cx_brand :: string
  cx_last_four :: string
  cx_exp_month :: string
  cx_exp_year :: string

record CardLimits =
  clm_daily_atm_limit :: rat
  clm_daily_pos_limit :: rat

record Card =
  cd_card_id :: string
  cd_type :: string
  cd_linked_account_id :: string
  cd_status :: string
  cd_issuer :: string
  cd_extra_info :: CardExtraInfo
  cd_limits :: CardLimits
  cd_pin_set :: bool


record MerchantInfo =
  mi_name :: string
  mi_mcc :: string
  mi_city :: string
  mi_country :: string

record ExchangeInfo =
  xi_source_currency :: string
  xi_target_currency :: string
  xi_rate :: rat
  xi_source_amount :: rat
  xi_target_amount :: rat

record TransactionFee =
  tf_type :: string
  tf_amount :: rat
  tf_currency :: string

record TransactionHold =
  th_is_hold :: bool
  th_release_at :: "string option"
  th_reason :: "string option"

record Transaction =
  tx_transaction_id :: string
  tx_client_id :: string
  tx_account_id :: string
  tx_timestamp :: string
  tx_type :: string
  tx_direction :: string
  tx_amount :: rat
  tx_currency :: string
  tx_description :: "string option"
  tx_method :: string
  tx_status :: string
  tx_merchant :: "MerchantInfo option"
  tx_related_transaction_id :: "string option"
  tx_exchange :: "ExchangeInfo option"
  tx_fees :: "TransactionFee list"
  tx_hold :: "TransactionHold option"
  tx_balance_after :: "rat option"

record Collateral =
  col_type :: string
  col_description :: string
  col_value_amount :: rat
  col_value_currency :: string

record LoanPaymentScheduleEntry =
  lps_due_date :: string
  lps_amount :: rat
  lps_currency :: string
  lps_status :: string
  lps_transaction_id :: "string option"


record EscrowAccount =
  esc_account_id :: string
  esc_balance :: rat
  esc_currency :: string


record BeneficiaryName =
  bn_display_name :: "string option"
  bn_first_name :: "string option"
  bn_last_name :: "string option"
  bn_business_name :: "string option"

record BankDetails =
  bd_bank_name :: string
  bd_account_number_masked :: string
  bd_routing_number :: "string option"
  bd_iban :: "string option"
  bd_swift_bic :: "string option"

record TransferLimits =
  tl_per_transfer_limit :: rat
  tl_daily_limit :: rat

record BeneficiaryVerification =
  bv_status :: string
  bv_method :: string
  bv_verified_at :: "string option"

record Beneficiary =
  bf_beneficiary_id :: string
  bf_client_id :: string
  bf_name :: BeneficiaryName
  bf_type :: string
  bf_bank_details :: BankDetails
  bf_address :: BankAddress
  bf_allowed_from_account_ids :: "string list"
  bf_transfer_limits :: TransferLimits
  bf_verification :: BeneficiaryVerification
  bf_status :: string
  bf_created_at :: string
  bf_notes :: "string option"



text \<open>The literal types that pydantic checks when a model is constructed.\<close>

definition TransactionType :: "string list" where
  "TransactionType = [''deposit'', ''withdrawal'', ''transfer'', ''payment'', ''fee'', ''interest'']"

definition TransactionDirection :: "string list" where
  "TransactionDirection = [''debit'', ''credit'']"

definition TransactionMethod :: "string list" where
  "TransactionMethod = [''ACH'', ''Wire'', ''Card'', ''ATM'', ''Internal'']"

definition TransactionStatus :: "string list" where
  "TransactionStatus = [''pending'', ''posted'', ''reversed'']"

definition Transaction_init :: "Transaction \<Rightarrow> error + Transaction" where
  "Transaction_init t =
     (if tx_type t \<in> set TransactionType
         \<and> tx_direction t \<in> set TransactionDirection
         \<and> tx_method t \<in> set TransactionMethod
         \<and> tx_status t \<in> set TransactionStatus
      then Inr t
      else Inl (ValidationError ''Transaction''))"


subsection \<open>Helpers of BankTools\<close>













subsection \<open>WRITE tools: initiate\_internal\_transfer and make\_loan\_payment\<close>






subsection \<open>A concrete bank database\<close>







text \<open>An amount is a whole number of cents when rounding to two decimals leaves it as it is.\<close>

definition whole_cents :: "rat \<Rightarrow> bool" where
  "whole_cents x = (round2 x = x)"

subsection \<open>READ tools of BankTools\<close>
















subsection \<open>READ tools of TravelAgencyTools\<close>










subsection \<open>READ tools of ECommerceTools\<close>










subsection \<open>READ tools of RailwayTools\<close>
















subsection \<open>The orchestrator loop of the green agent\<close>

text \<open>
  \<open>ask_agent_to_solve\<close> (green_agent/agent.py) sends a message to the agent under
  test, reads its reply, decodes an action from it and feeds the action to
  \<open>env.step\<close>, until the environment reports termination.  The replies of the agent
  are the input of the embedding: the loop runs over a list of replies, and a list that
  ends while the loop still runs leaves it waiting for the next reply.  A failed
  assertion or a raise in the body is the outcome \<open>Fatal\<close>: the exception leaves
  \<open>ask_agent_to_solve\<close>.  \<open>parse_tags\<close>, \<open>json.loads\<close>, \<open>json.dumps\<close> and
  \<open>env.step\<close> are parameters; \<open>env.step\<close> returns the environment after the call
  next to its outcome.  The field \<open>fed\<close> of the loop state records the actions passed
  to \<open>env.step\<close>, in order.  The two \<open>isinstance\<close> assertions carry the type of the
  reply in their message, which is left off here.  What the function builds from the
  last \<open>info\<close> after the loop is not part of the embedding.
\<close>

datatype part = TextPart string | FilePart | DataPart



















section \<open>Properties of the e-commerce tools\<close>

lemma get_sale_Inr: "get_sale db ref = Inr s \<longleftrightarrow> map_of (sales db) ref = Some s"
  by (simp add: get_sale_def split: option.splits)

lemma update_existing_keys:
  "map_of d k = Some v \<Longrightarrow> keys (AList.update k v' d) = keys d"
  by (auto simp: keys_def update_keys dest: map_of_SomeD intro: rev_image_eqI)

text \<open>
  Claim C10.  A successful \<open>exchange_delivered_sale_lines\<close> changes nothing but the
  \<open>state\<close> field of the sale it names, which becomes \<open>exchange requested\<close>: the
  returned sale is the stored sale with that one field replaced, so its lines, ledger
  (no entry is appended for the price difference) and delivery address are the old ones;
  the database after the call is the database before it with that sale written back
  under its own key, so the catalogue, the accounts, every other sale and the order of
  the sales are unchanged.
\<close>

theorem exchange_delivered_sale_lines_frame:
  assumes "exchange_delivered_sale_lines ref unit_skus_old unit_skus_new instrument_id db
             = (db', Inr s)"
  shows "\<exists>sale. map_of (sales db) ref = Some sale
           \<and> sale_state sale = ''delivered''
           \<and> s = sale\<lparr>sale_state := ''exchange requested''\<rparr>
           \<and> sale_lines s = sale_lines sale
           \<and> sale_ledger s = sale_ledger sale
           \<and> sale_delivery s = sale_delivery sale
           \<and> db' = db\<lparr>sales := AList.update ref s (sales db)\<rparr>
           \<and> catalogue db' = catalogue db
           \<and> accounts db' = accounts db
           \<and> keys (sales db') = keys (sales db)
           \<and> (\<forall>r. r \<noteq> ref \<longrightarrow> map_of (sales db') r = map_of (sales db) r)"
proof -
  from assms obtain sale where sale: "map_of (sales db) ref = Some sale"
    by (auto simp: exchange_delivered_sale_lines_def get_sale_def split: option.splits)
  have gs: "get_sale db ref = Inr sale"
    using sale by (simp add: get_sale_Inr)
  from assms gs have st: "sale_state sale = ''delivered''"
    by (auto simp: exchange_delivered_sale_lines_def split: if_splits)
  from assms gs st have s: "s = sale\<lparr>sale_state := ''exchange requested''\<rparr>"
    and db': "db' = db\<lparr>sales := AList.update ref s (sales db)\<rparr>"
    by (auto simp: exchange_delivered_sale_lines_def Let_def
             split: if_splits option.splits sum.splits)
  have k: "keys (sales db') = keys (sales db)"
    using sale by (simp add: db' update_existing_keys)
  have o: "\<forall>r. r \<noteq> ref \<longrightarrow> map_of (sales db') r = map_of (sales db) r"
    by (simp add: db' update_conv')
  show ?thesis
    using sale st s db' k o by simp
qed

theorem exchange_delivered_sale_lines_frame_witness:
  "exchange_delivered_sale_lines ''S1'' [''skuA''] [''skuB''] ''card1'' ex_ecommerce_db
     = (ex_ecommerce_db\<lparr>sales := [(''S1'', ex_sale ''S1'' ''exchange requested''),
                                   (''S2'', ex_sale ''S2'' ''pending'')]\<rparr>,
        Inr (ex_sale ''S1'' ''exchange requested''))
   \<and> (\<exists>sale. map_of (sales ex_ecommerce_db) ''S1'' = Some sale
           \<and> sale_state sale = ''delivered''
           \<and> ex_sale ''S1'' ''exchange requested'' = sale\<lparr>sale_state := ''exchange requested''\<rparr>
           \<and> sale_ledger (ex_sale ''S1'' ''exchange requested'') = sale_ledger sale)"
proof -
  have h: "exchange_delivered_sale_lines ''S1'' [''skuA''] [''skuB''] ''card1'' ex_ecommerce_db
     = (ex_ecommerce_db\<lparr>sales := [(''S1'', ex_sale ''S1'' ''exchange requested''),
                                   (''S2'', ex_sale ''S2'' ''pending'')]\<rparr>,
        Inr (ex_sale ''S1'' ''exchange requested''))"
    by (simp add: exchange_delivered_sale_lines_def get_sale_def get_funding_source_def
          get_account_ec_def get_offering_def get_catalogue_group_def ex_ecommerce_db_def
          ex_sale_def ex_account_ec_def ex_group_def ex_offering_def Let_def)
  from exchange_delivered_sale_lines_frame [OF h] show ?thesis
    using h by blast
qed

section \<open>Properties of the cancel operations\<close>

subsection \<open>Locating and writing back a booking\<close>

lemma first_index_map:
  "first_index (\<lambda>b. f b = x) bs = first_index (\<lambda>y. y = x) (map f bs)"
  by (induction bs) simp_all

lemma first_index_Some:
  "first_index P xs = Some j \<Longrightarrow> j < length xs \<and> P (xs ! j)"
  by (induction xs arbitrary: j) (auto split: if_splits)

lemma first_index_None: "first_index P xs = None \<longleftrightarrow> (\<forall>x \<in> set xs. \<not> P x)"
  by (induction xs) auto

lemma first_index_update:
  assumes "j < length bs" and "bk_booking_id b' = bk_booking_id (bs ! j)"
  shows "first_index (\<lambda>b. bk_booking_id b = x) (bs[j := b'])
           = first_index (\<lambda>b. bk_booking_id b = x) bs"
proof -
  have "map bk_booking_id (bs[j := b']) = map bk_booking_id bs"
    using assms by (simp add: map_update list_update_same_conv)
  then show ?thesis
    by (simp add: first_index_map [of bk_booking_id])
qed

lemma locate_booking_Some:
  "locate_booking ts booking_id = Some (i, j) \<Longrightarrow>
     i < length ts \<and> j < length (tr_bookings (snd (ts ! i)))
     \<and> bk_booking_id (tr_bookings (snd (ts ! i)) ! j) = booking_id"
proof (induction ts arbitrary: i)
  case Nil
  then show ?case by simp
next
  case (Cons kt rest)
  show ?case
  proof (cases "first_index (\<lambda>b. bk_booking_id b = booking_id) (tr_bookings (snd kt))")
    case None
    with Cons.prems obtain i' where i: "i = Suc i'"
      and l: "locate_booking rest booking_id = Some (i', j)"
      by auto
    from Cons.IH [OF l] show ?thesis by (simp add: i)
  next
    case (Some j')
    with Cons.prems have "i = 0" "j' = j" by auto
    with first_index_Some [OF Some] show ?thesis by simp
  qed
qed

lemma locate_booking_put:
  assumes "locate_booking ts x = Some (i, j)"
    and "bk_booking_id b' = x"
  shows "locate_booking (put_booking ts (i, j) b') y = locate_booking ts y"
  using assms
proof (induction ts arbitrary: i)
  case Nil
  then show ?case by simp
next
  case (Cons kt rest)
  show ?case
  proof (cases "first_index (\<lambda>b. bk_booking_id b = x) (tr_bookings (snd kt))")
    case None
    with Cons.prems obtain i' where i: "i = Suc i'"
      and l: "locate_booking rest x = Some (i', j)"
      by auto
    have "put_booking (kt # rest) (i, j) b' = kt # put_booking rest (i', j) b'"
      by (simp add: put_booking_def i)
    with Cons.IH [OF l Cons.prems(2)] show ?thesis
      by (simp split: option.splits)
  next
    case (Some j')
    with Cons.prems have ij: "i = 0" "j' = j" by auto
    from first_index_Some [OF Some] ij
    have j: "j < length (tr_bookings (snd kt))"
      and idj: "bk_booking_id (tr_bookings (snd kt) ! j) = x" by simp_all
    have "put_booking (kt # rest) (i, j) b'
            = (fst kt, (snd kt)\<lparr>tr_bookings := (tr_bookings (snd kt))[j := b']\<rparr>) # rest"
      by (simp add: put_booking_def ij)
    then show ?thesis
      using j idj Cons.prems(2) by (simp add: first_index_update)
  qed
qed

lemma booking_at_put:
  assumes "locate_booking ts x = Some (i, j)"
  shows "booking_at (put_booking ts (i, j) b') (i, j) = b'"
  using locate_booking_Some [OF assms] by (simp add: booking_at_def put_booking_def)

lemma sum_refunds:
  "sum_list (map bp_amount (ps @ map refund_of ps)) = 0"
  by (induction ps) (simp_all add: refund_of_def)

lemma sum_rail_refunds:
  "sum_list (map rp_amount (ps @ map rail_refund_of ps)) = 0"
  by (induction ps) (simp_all add: rail_refund_of_def)

lemma cancel_booking_success:
  assumes "locate_booking (travelers db) booking_id = Some p"
    and "get_package db (bk_package_id (booking_at (travelers db) p)) = Inr package"
  shows "cancel_booking booking_id db =
     (db\<lparr>travelers := put_booking (travelers db) p
            ((booking_at (travelers db) p)
               \<lparr>bk_payment_history :=
                  bk_payment_history (booking_at (travelers db) p)
                    @ map refund_of (bk_payment_history (booking_at (travelers db) p)),
                bk_status := ''cancelled''\<rparr>),
          packages := AList.update (bk_package_id (booking_at (travelers db) p))
            (restore_slots package (bk_departure_date (booking_at (travelers db) p))
               (int (length (bk_travelers (booking_at (travelers db) p)))))
            (packages db)\<rparr>,
      Inr ((booking_at (travelers db) p)
             \<lparr>bk_payment_history :=
                bk_payment_history (booking_at (travelers db) p)
                  @ map refund_of (bk_payment_history (booking_at (travelers db) p)),
              bk_status := ''cancelled''\<rparr>))"
  using assms by (simp add: cancel_booking_def Let_def)

lemma cancel_booking_Inr:
  assumes "cancel_booking booking_id db = (db', Inr b')"
  shows "\<exists>p package. locate_booking (travelers db) booking_id = Some p
           \<and> get_package db (bk_package_id (booking_at (travelers db) p)) = Inr package"
  using assms by (auto simp: cancel_booking_def Let_def split: option.splits sum.splits)

lemma cancel_reservation_Inr:
  assumes "cancel_reservation reservation_id db = (db', Inr r')"
  shows "\<exists>r. map_of (reservations db) reservation_id = Some r
           \<and> r' = r\<lparr>rs_payment_history :=
                       rs_payment_history r @ map rail_refund_of (rs_payment_history r),
                     rs_status := ''cancelled''\<rparr>
           \<and> db' = db\<lparr>reservations := AList.update reservation_id r' (reservations db)\<rparr>"
  using assms
  by (auto simp: cancel_reservation_def get_reservation_def Let_def split: option.splits)

subsection \<open>Evaluating the cancel operations on the concrete databases\<close>

lemma ex_locate:
  "locate_booking (travelers (ex_travel_db slots [ex_booking st amounts])) ''TAU001'' = Some (0, 0)"
  by (simp add: ex_travel_db_def ex_traveler_def ex_booking_def)

lemma ex_get_booking:
  "get_booking (ex_travel_db slots [ex_booking st amounts]) ''TAU001''
     = Inr (ex_traveler [ex_booking st amounts], ex_booking st amounts)"
  by (simp add: get_booking_def ex_locate booking_at_def) (simp add: ex_travel_db_def ex_traveler_def)

lemma ex_cancel_booking:
  "cancel_booking ''TAU001'' (ex_travel_db slots [ex_booking st amounts])
     = (ex_travel_db (slots + 1) [ex_booking ''cancelled'' (amounts @ map uminus amounts)],
        Inr (ex_booking ''cancelled'' (amounts @ map uminus amounts)))"
  by (simp add: cancel_booking_def ex_locate booking_at_def Let_def)
     (simp add: ex_travel_db_def ex_traveler_def ex_booking_def ex_package_def get_package_def
        restore_slots_def put_booking_def refund_of_def comp_def Let_def)

lemma ex_cancel_reservation:
  "cancel_reservation ''TRN001'' (ex_train_db (ex_reservation st amounts))
     = (ex_train_db (ex_reservation ''cancelled'' (amounts @ map uminus amounts)),
        Inr (ex_reservation ''cancelled'' (amounts @ map uminus amounts)))"
  by (simp add: cancel_reservation_def get_reservation_def ex_train_db_def ex_reservation_def
        rail_refund_of_def comp_def Let_def)

subsection \<open>What a successful cancel does\<close>

lemma cancel_booking_effect:
  assumes c: "cancel_booking booking_id db = (db', Inr b')"
  shows "\<exists>p package. locate_booking (travelers db) booking_id = Some p
           \<and> get_package db (bk_package_id (booking_at (travelers db) p)) = Inr package
           \<and> b' = (booking_at (travelers db) p)
                     \<lparr>bk_payment_history :=
                        bk_payment_history (booking_at (travelers db) p)
                          @ map refund_of (bk_payment_history (booking_at (travelers db) p)),
                      bk_status := ''cancelled''\<rparr>
           \<and> db' = db\<lparr>travelers := put_booking (travelers db) p b',
                       packages := AList.update (bk_package_id (booking_at (travelers db) p))
                         (restore_slots package (bk_departure_date (booking_at (travelers db) p))
                            (int (length (bk_travelers (booking_at (travelers db) p)))))
                         (packages db)\<rparr>
           \<and> locate_booking (travelers db') booking_id = Some p
           \<and> booking_at (travelers db') p = b'"
proof -
  from cancel_booking_Inr [OF c] obtain p package
    where l: "locate_booking (travelers db) booking_id = Some p"
      and g: "get_package db (bk_package_id (booking_at (travelers db) p)) = Inr package"
    by blast
  obtain i j where p: "p = (i, j)" by (cases p)
  let ?b = "booking_at (travelers db) p"
  from cancel_booking_success [OF l g] c
  have b': "b' = ?b\<lparr>bk_payment_history :=
                      bk_payment_history ?b @ map refund_of (bk_payment_history ?b),
                    bk_status := ''cancelled''\<rparr>"
    and db': "db' = db\<lparr>travelers := put_booking (travelers db) p b',
                       packages := AList.update (bk_package_id ?b)
                         (restore_slots package (bk_departure_date ?b)
                            (int (length (bk_travelers ?b))))
                         (packages db)\<rparr>"
    by simp_all
  have l0: "locate_booking (travelers db) booking_id = Some (i, j)"
    using l p by simp
  have id: "bk_booking_id b' = booking_id"
    using locate_booking_Some [OF l0] by (simp add: b' booking_at_def p)
  have l': "locate_booking (travelers db') booking_id = Some p"
    using locate_booking_put [OF l0 id, of booking_id] l0 by (simp add: db' p)
  have at': "booking_at (travelers db') p = b'"
    using booking_at_put [OF l0, of b'] by (simp add: db' p)
  show ?thesis
    using l g b' db' l' at' by blast
qed

lemma get_booking_Inr:
  assumes "get_booking db booking_id = Inr (t, b)"
  shows "\<exists>p. locate_booking (travelers db) booking_id = Some p
           \<and> b = booking_at (travelers db) p \<and> t = snd (travelers db ! fst p)"
  using assms by (auto simp: get_booking_def split: option.splits)

lemma ex_get_package:
  "get_package (ex_travel_db slots bs) ''PK1'' = Inr (ex_package slots)"
  by (simp add: get_package_def ex_travel_db_def)

lemma ex_get_reservation:
  "get_reservation (ex_train_db r) ''TRN001'' = Inr r"
  by (simp add: get_reservation_def ex_train_db_def)

lemma ex_locate_no_package:
  "locate_booking (travelers (ex_travel_db_no_package [ex_booking st amounts])) ''TAU001''
     = Some (0, 0)"
  by (simp add: ex_travel_db_no_package_def ex_traveler_def ex_booking_def)

lemma ex_get_booking_no_package:
  "get_booking (ex_travel_db_no_package [ex_booking st amounts]) ''TAU001''
     = Inr (ex_traveler [ex_booking st amounts], ex_booking st amounts)"
  by (simp add: get_booking_def ex_locate_no_package booking_at_def)
     (simp add: ex_travel_db_no_package_def ex_traveler_def)

lemma ex_get_package_missing:
  "get_package (ex_travel_db_no_package bs) ''PK1'' = Inl (ValueError ''Package PK1 not found'')"
  by (simp add: get_package_def ex_travel_db_no_package_def)

lemma ex_cancel_booking_no_package:
  "cancel_booking ''TAU001'' (ex_travel_db_no_package [ex_booking st amounts])
     = (ex_travel_db_no_package [ex_booking st amounts],
        Inl (ValueError ''Package PK1 not found''))"
  by (simp add: cancel_booking_def ex_locate_no_package booking_at_def Let_def)
     (simp add: ex_travel_db_no_package_def ex_traveler_def ex_booking_def get_package_def)

lemma cancel_booking_package_missing:
  assumes "get_booking db booking_id = Inr (t, b)"
    and "get_package db (bk_package_id b) = Inl e"
  shows "cancel_booking booking_id db = (db, Inl e)"
  using assms
  by (auto simp: cancel_booking_def get_booking_def Let_def split: option.splits)

text \<open>
  Claim C3, as stated, fails for \<open>cancel_booking\<close> on a confirmed booking whose
  package is not in \<open>db.packages\<close>: \<open>_get_package\<close> raises before any refund is
  built, so the call ends with the error \<open>Package PK1 not found\<close>, the database is
  what it was and the history of the booking is still the single payment of 250.
\<close>

theorem cancel_confirmed_booking_missing_package:
  "bk_status (ex_booking ''confirmed'' [250]) = ''confirmed''
   \<and> get_booking (ex_travel_db_no_package [ex_booking ''confirmed'' [250]]) ''TAU001''
       = Inr (ex_traveler [ex_booking ''confirmed'' [250]], ex_booking ''confirmed'' [250])
   \<and> cancel_booking ''TAU001'' (ex_travel_db_no_package [ex_booking ''confirmed'' [250]])
       = (ex_travel_db_no_package [ex_booking ''confirmed'' [250]],
          Inl (ValueError ''Package PK1 not found''))
   \<and> map bp_amount (bk_payment_history (ex_booking ''confirmed'' [250])) = [250]"
  using ex_cancel_booking_no_package [of "''confirmed''" "[250]"]
        ex_get_booking_no_package [of "''confirmed''" "[250]"]
  by (simp add: ex_booking_def)

text \<open>
  Claim C3, amended.  Refund symmetry and zero sum.
  \<^item> For every booking that \<open>_get_booking\<close> finds and whose package is in
    \<open>db.packages\<close>, of any status and a confirmed one in particular,
    \<open>TravelAgencyTools.cancel_booking\<close> returns normally; the payment history then
    stored for the booking is the history \<open>P\<close> it had before the call, unchanged and
    in place, followed by one new entry per entry of \<open>P\<close>, in the same order, with the
    same payment id and the negated amount; its signed sum is zero.
  \<^item> For a booking whose package is not in \<open>db.packages\<close> the call raises the error of
    \<open>_get_package\<close> and the database is unchanged.
  \<^item> For every reservation in \<open>db.reservations\<close>, of any status,
    \<open>RailwayTools.cancel_reservation\<close> returns normally with the same effect on the
    payment history of the reservation.
\<close>

theorem cancel_appends_mirrored_refunds:
  "(get_booking db booking_id = Inr (t, b)
      \<and> get_package db (bk_package_id b) = Inr package \<longrightarrow>
      (\<exists>db' t' b'. cancel_booking booking_id db = (db', Inr b')
         \<and> get_booking db' booking_id = Inr (t', b')
         \<and> bk_payment_history b' =
             bk_payment_history b
               @ map (\<lambda>p. \<lparr>bp_payment_id = bp_payment_id p, bp_amount = - bp_amount p\<rparr>)
                   (bk_payment_history b)
         \<and> sum_list (map bp_amount (bk_payment_history b')) = 0))
   \<and> (get_booking db booking_id = Inr (t, b)
      \<and> get_package db (bk_package_id b) = Inl e \<longrightarrow>
      cancel_booking booking_id db = (db, Inl e))
   \<and> (get_reservation rdb reservation_id = Inr r \<longrightarrow>
      (\<exists>rdb' r'. cancel_reservation reservation_id rdb = (rdb', Inr r')
         \<and> get_reservation rdb' reservation_id = Inr r'
         \<and> rs_payment_history r' =
             rs_payment_history r
               @ map (\<lambda>p. \<lparr>rp_payment_id = rp_payment_id p, rp_amount = - rp_amount p\<rparr>)
                   (rs_payment_history r)
         \<and> sum_list (map rp_amount (rs_payment_history r')) = 0))"
proof (intro conjI impI)
  assume a: "get_booking db booking_id = Inr (t, b)
      \<and> get_package db (bk_package_id b) = Inr package"
  from a get_booking_Inr obtain p
    where l: "locate_booking (travelers db) booking_id = Some p"
      and b: "b = booking_at (travelers db) p"
    by blast
  from a b have g: "get_package db (bk_package_id (booking_at (travelers db) p)) = Inr package"
    by simp
  define b' where "b' = b\<lparr>bk_payment_history :=
                            bk_payment_history b @ map refund_of (bk_payment_history b),
                          bk_status := ''cancelled''\<rparr>"
  define db' where "db' = db\<lparr>travelers := put_booking (travelers db) p b',
                         packages := AList.update (bk_package_id b)
                           (restore_slots package (bk_departure_date b)
                              (int (length (bk_travelers b))))
                           (packages db)\<rparr>"
  have c: "cancel_booking booking_id db = (db', Inr b')"
    using cancel_booking_success [OF l g] by (simp add: b'_def db'_def b)
  from cancel_booking_effect [OF c] l
  have l': "locate_booking (travelers db') booking_id = Some p"
    and at': "booking_at (travelers db') p = b'"
    by auto
  have g': "get_booking db' booking_id = Inr (snd (travelers db' ! fst p), b')"
    by (simp add: get_booking_def l' at')
  have h: "bk_payment_history b' =
             bk_payment_history b
               @ map (\<lambda>p. \<lparr>bp_payment_id = bp_payment_id p, bp_amount = - bp_amount p\<rparr>)
                   (bk_payment_history b)"
    by (simp add: b'_def refund_of_def [abs_def])
  have z: "sum_list (map bp_amount (bk_payment_history b')) = 0"
    using sum_refunds [of "bk_payment_history b"] by (simp add: b'_def)
  show "\<exists>db' t' b'. cancel_booking booking_id db = (db', Inr b')
         \<and> get_booking db' booking_id = Inr (t', b')
         \<and> bk_payment_history b' =
             bk_payment_history b
               @ map (\<lambda>p. \<lparr>bp_payment_id = bp_payment_id p, bp_amount = - bp_amount p\<rparr>)
                   (bk_payment_history b)
         \<and> sum_list (map bp_amount (bk_payment_history b')) = 0"
    using c g' h z by blast
next
  assume "get_booking db booking_id = Inr (t, b)
      \<and> get_package db (bk_package_id b) = Inl e"
  then show "cancel_booking booking_id db = (db, Inl e)"
    using cancel_booking_package_missing by blast
next
  assume g: "get_reservation rdb reservation_id = Inr r"
  define r' where "r' = r\<lparr>rs_payment_history :=
                            rs_payment_history r @ map rail_refund_of (rs_payment_history r),
                          rs_status := ''cancelled''\<rparr>"
  define rdb' where
    "rdb' = rdb\<lparr>reservations := AList.update reservation_id r' (reservations rdb)\<rparr>"
  have c: "cancel_reservation reservation_id rdb = (rdb', Inr r')"
    using g by (simp add: cancel_reservation_def Let_def r'_def rdb'_def)
  have g': "get_reservation rdb' reservation_id = Inr r'"
    by (simp add: get_reservation_def rdb'_def update_conv')
  have h: "rs_payment_history r' =
             rs_payment_history r
               @ map (\<lambda>p. \<lparr>rp_payment_id = rp_payment_id p, rp_amount = - rp_amount p\<rparr>)
                   (rs_payment_history r)"
    by (simp add: r'_def rail_refund_of_def [abs_def])
  have z: "sum_list (map rp_amount (rs_payment_history r')) = 0"
    using sum_rail_refunds [of "rs_payment_history r"] by (simp add: r'_def)
  show "\<exists>rdb' r'. cancel_reservation reservation_id rdb = (rdb', Inr r')
         \<and> get_reservation rdb' reservation_id = Inr r'
         \<and> rs_payment_history r' =
             rs_payment_history r
               @ map (\<lambda>p. \<lparr>rp_payment_id = rp_payment_id p, rp_amount = - rp_amount p\<rparr>)
                   (rs_payment_history r)
         \<and> sum_list (map rp_amount (rs_payment_history r')) = 0"
    using c g' h z by blast
qed

theorem cancel_appends_mirrored_refunds_witness:
  "get_booking (ex_travel_db 5 [ex_booking ''confirmed'' [250]]) ''TAU001''
     = Inr (ex_traveler [ex_booking ''confirmed'' [250]], ex_booking ''confirmed'' [250])
   \<and> get_package (ex_travel_db 5 [ex_booking ''confirmed'' [250]])
        (bk_package_id (ex_booking ''confirmed'' [250])) = Inr (ex_package 5)
   \<and> cancel_booking ''TAU001'' (ex_travel_db 5 [ex_booking ''confirmed'' [250]])
     = (ex_travel_db 6 [ex_booking ''cancelled'' [250, - 250]],
        Inr (ex_booking ''cancelled'' [250, - 250]))
   \<and> (\<exists>db' t' b'. cancel_booking ''TAU001'' (ex_travel_db 5 [ex_booking ''confirmed'' [250]])
                     = (db', Inr b')
         \<and> get_booking db' ''TAU001'' = Inr (t', b')
         \<and> bk_payment_history b' =
             bk_payment_history (ex_booking ''confirmed'' [250])
               @ map (\<lambda>p. \<lparr>bp_payment_id = bp_payment_id p, bp_amount = - bp_amount p\<rparr>)
                   (bk_payment_history (ex_booking ''confirmed'' [250]))
         \<and> sum_list (map bp_amount (bk_payment_history b')) = 0)
   \<and> get_booking (ex_travel_db_no_package [ex_booking ''confirmed'' [250]]) ''TAU001''
     = Inr (ex_traveler [ex_booking ''confirmed'' [250]], ex_booking ''confirmed'' [250])
   \<and> get_package (ex_travel_db_no_package [ex_booking ''confirmed'' [250]])
        (bk_package_id (ex_booking ''confirmed'' [250]))
     = Inl (ValueError ''Package PK1 not found'')
   \<and> cancel_booking ''TAU001'' (ex_travel_db_no_package [ex_booking ''confirmed'' [250]])
     = (ex_travel_db_no_package [ex_booking ''confirmed'' [250]],
        Inl (ValueError ''Package PK1 not found''))
   \<and> get_reservation (ex_train_db (ex_reservation ''confirmed'' [250])) ''TRN001''
     = Inr (ex_reservation ''confirmed'' [250])
   \<and> (\<exists>rdb' r'. cancel_reservation ''TRN001'' (ex_train_db (ex_reservation ''confirmed'' [250]))
                    = (rdb', Inr r')
         \<and> get_reservation rdb' ''TRN001'' = Inr r'
         \<and> rs_payment_history r' =
             rs_payment_history (ex_reservation ''confirmed'' [250])
               @ map (\<lambda>p. \<lparr>rp_payment_id = rp_payment_id p, rp_amount = - rp_amount p\<rparr>)
                   (rs_payment_history (ex_reservation ''confirmed'' [250]))
         \<and> sum_list (map rp_amount (rs_payment_history r')) = 0)"
proof -
  let ?db = "ex_travel_db 5 [ex_booking ''confirmed'' [250]]"
  let ?dbn = "ex_travel_db_no_package [ex_booking ''confirmed'' [250]]"
  let ?b = "ex_booking ''confirmed'' [250]"
  let ?rdb = "ex_train_db (ex_reservation ''confirmed'' [250])"
  let ?r = "ex_reservation ''confirmed'' [250]"
  have h1: "get_booking ?db ''TAU001'' = Inr (ex_traveler [?b], ?b)"
    by (rule ex_get_booking)
  have h2: "get_package ?db (bk_package_id ?b) = Inr (ex_package 5)"
    by (simp add: ex_booking_def ex_get_package)
  have h3: "get_booking ?dbn ''TAU001'' = Inr (ex_traveler [?b], ?b)"
    by (rule ex_get_booking_no_package)
  have h4: "get_package ?dbn (bk_package_id ?b) = Inl (ValueError ''Package PK1 not found'')"
    by (simp add: ex_booking_def ex_get_package_missing)
  have h5: "get_reservation ?rdb ''TRN001'' = Inr ?r"
    by (rule ex_get_reservation)
  have e1: "cancel_booking ''TAU001'' ?db
     = (ex_travel_db 6 [ex_booking ''cancelled'' [250, - 250]],
        Inr (ex_booking ''cancelled'' [250, - 250]))"
    using ex_cancel_booking [of 5 "''confirmed''" "[250]"] by simp
  note T1 = cancel_appends_mirrored_refunds
         [of ?db "''TAU001''" "ex_traveler [?b]" ?b "ex_package 5"
             "ValueError ''Package PK1 not found''" ?rdb "''TRN001''" ?r]
  note T2 = cancel_appends_mirrored_refunds
         [of ?dbn "''TAU001''" "ex_traveler [?b]" ?b "ex_package 5"
             "ValueError ''Package PK1 not found''" ?rdb "''TRN001''" ?r]
  from T1 h1 h2 have c1: "\<exists>db' t' b'. cancel_booking ''TAU001'' ?db = (db', Inr b')
         \<and> get_booking db' ''TAU001'' = Inr (t', b')
         \<and> bk_payment_history b' =
             bk_payment_history ?b
               @ map (\<lambda>p. \<lparr>bp_payment_id = bp_payment_id p, bp_amount = - bp_amount p\<rparr>)
                   (bk_payment_history ?b)
         \<and> sum_list (map bp_amount (bk_payment_history b')) = 0"
    by blast
  from T2 h3 h4 have c2: "cancel_booking ''TAU001'' ?dbn
       = (?dbn, Inl (ValueError ''Package PK1 not found''))"
    by blast
  from T1 h5 have c3: "\<exists>rdb' r'. cancel_reservation ''TRN001'' ?rdb = (rdb', Inr r')
         \<and> get_reservation rdb' ''TRN001'' = Inr r'
         \<and> rs_payment_history r' =
             rs_payment_history ?r
               @ map (\<lambda>p. \<lparr>rp_payment_id = rp_payment_id p, rp_amount = - rp_amount p\<rparr>)
                   (rs_payment_history ?r)
         \<and> sum_list (map rp_amount (rs_payment_history r')) = 0"
    by blast
  show ?thesis
    using h1 h2 h3 h4 h5 e1 c1 c2 c3 by blast
qed

text \<open>
  Claim C2 against the code.  The claim asks that cancelling an already cancelled booking
  or reservation be a no-op that returns the existing state.  Neither
  \<open>cancel_booking\<close> nor \<open>cancel_reservation\<close> reads the status.  On a cancelled
  booking whose history is a payment of 250 and its refund of \<open>-250\<close>,
  \<open>cancel_booking\<close> returns normally, appends \<open>-250\<close> and a positive entry of
  \<open>250\<close>, and raises the available slots of the departure from 6 to 7;
  \<open>cancel_reservation\<close> appends the same two entries to a cancelled reservation.
  The docstrings of both tools promise refunds as negative payments, and the
  \<open>cancel_booking\<close> of the movie toolkit returns a cancelled booking untouched.
\<close>

theorem cancel_cancelled_not_noop:
  "bk_status (ex_booking ''cancelled'' [250, - 250]) = ''cancelled''
   \<and> get_booking (ex_travel_db 6 [ex_booking ''cancelled'' [250, - 250]]) ''TAU001''
       = Inr (ex_traveler [ex_booking ''cancelled'' [250, - 250]],
              ex_booking ''cancelled'' [250, - 250])
   \<and> cancel_booking ''TAU001'' (ex_travel_db 6 [ex_booking ''cancelled'' [250, - 250]])
       = (ex_travel_db 7 [ex_booking ''cancelled'' [250, - 250, - 250, 250]],
          Inr (ex_booking ''cancelled'' [250, - 250, - 250, 250]))
   \<and> ex_travel_db 7 [ex_booking ''cancelled'' [250, - 250, - 250, 250]]
       \<noteq> ex_travel_db 6 [ex_booking ''cancelled'' [250, - 250]]
   \<and> map bp_amount (bk_payment_history (ex_booking ''cancelled'' [250, - 250, - 250, 250]))
       = [250, - 250, - 250, 250]
   \<and> rs_status (ex_reservation ''cancelled'' [250, - 250]) = ''cancelled''
   \<and> cancel_reservation ''TRN001'' (ex_train_db (ex_reservation ''cancelled'' [250, - 250]))
       = (ex_train_db (ex_reservation ''cancelled'' [250, - 250, - 250, 250]),
          Inr (ex_reservation ''cancelled'' [250, - 250, - 250, 250]))
   \<and> ex_train_db (ex_reservation ''cancelled'' [250, - 250, - 250, 250])
       \<noteq> ex_train_db (ex_reservation ''cancelled'' [250, - 250])"
proof -
  have c1: "cancel_booking ''TAU001'' (ex_travel_db 6 [ex_booking ''cancelled'' [250, - 250]])
       = (ex_travel_db 7 [ex_booking ''cancelled'' [250, - 250, - 250, 250]],
          Inr (ex_booking ''cancelled'' [250, - 250, - 250, 250]))"
    using ex_cancel_booking [of 6 "''cancelled''" "[250, - 250]"] by simp
  have c2: "cancel_reservation ''TRN001'' (ex_train_db (ex_reservation ''cancelled'' [250, - 250]))
       = (ex_train_db (ex_reservation ''cancelled'' [250, - 250, - 250, 250]),
          Inr (ex_reservation ''cancelled'' [250, - 250, - 250, 250]))"
    using ex_cancel_reservation [of "''cancelled''" "[250, - 250]"] by simp
  have n1: "ex_travel_db 7 [ex_booking ''cancelled'' [250, - 250, - 250, 250]]
       \<noteq> ex_travel_db 6 [ex_booking ''cancelled'' [250, - 250]]"
    by (simp add: ex_travel_db_def ex_package_def)
  have n2: "ex_train_db (ex_reservation ''cancelled'' [250, - 250, - 250, 250])
       \<noteq> ex_train_db (ex_reservation ''cancelled'' [250, - 250])"
    by (simp add: ex_train_db_def ex_reservation_def)
  have s1: "bk_status (ex_booking ''cancelled'' [250, - 250]) = ''cancelled''"
    and s2: "rs_status (ex_reservation ''cancelled'' [250, - 250]) = ''cancelled''"
    and s3: "map bp_amount (bk_payment_history (ex_booking ''cancelled'' [250, - 250, - 250, 250]))
       = [250, - 250, - 250, 250]"
    by (simp_all add: ex_booking_def ex_reservation_def)
  show ?thesis
    using c1 c2 n1 n2 s1 s2 s3 ex_get_booking [of 6 "''cancelled''" "[250, - 250]"] by simp
qed

text \<open>
  Claim C7, as stated, fails for bookings: \<open>cancel_booking\<close> has no allowed-transition
  table.  A booking whose status is \<open>completed\<close> is cancelled without any error: the
  call returns the booking with status \<open>cancelled\<close> and a refund appended.
\<close>

theorem cancel_completed_booking_succeeds:
  "bk_status (ex_booking ''completed'' [250]) = ''completed''
   \<and> get_booking (ex_travel_db 5 [ex_booking ''completed'' [250]]) ''TAU001''
       = Inr (ex_traveler [ex_booking ''completed'' [250]], ex_booking ''completed'' [250])
   \<and> cancel_booking ''TAU001'' (ex_travel_db 5 [ex_booking ''completed'' [250]])
       = (ex_travel_db 6 [ex_booking ''cancelled'' [250, - 250]],
          Inr (ex_booking ''cancelled'' [250, - 250]))
   \<and> bk_status (ex_booking ''cancelled'' [250, - 250]) = ''cancelled''"
  using ex_cancel_booking [of 5 "''completed''" "[250]"]
        ex_get_booking [of 5 "''completed''" "[250]"]
  by (simp add: ex_booking_def)

text \<open>
  Claim C7, amended.  Whether an illegal transition is refused depends on the tool.
  \<open>ECommerceTools.cancel_pending_sale\<close> has the guard: for every sale whose state is
  not \<open>pending\<close> (delivered, cancelled, anything else) and for every reason it raises
  the error \<open>Non-pending sale cannot be cancelled\<close> and leaves the database as it was.
  \<open>TravelAgencyTools.cancel_booking\<close> checks no status: for a booking of any status
  whose package exists it returns normally with the status set to \<open>cancelled\<close>.
\<close>

theorem cancel_transition_legality:
  "(get_sale edb ref = Inr sale \<and> sale_state sale \<noteq> ''pending'' \<longrightarrow>
      cancel_pending_sale ref reason edb
        = (edb, Inl (ValueError ''Non-pending sale cannot be cancelled'')))
   \<and> (get_booking db booking_id = Inr (t, b)
        \<and> get_package db (bk_package_id b) = Inr package \<longrightarrow>
      (\<exists>db' b'. cancel_booking booking_id db = (db', Inr b')
         \<and> bk_status b' = ''cancelled''))"
proof (intro conjI impI)
  assume "get_sale edb ref = Inr sale \<and> sale_state sale \<noteq> ''pending''"
  then show "cancel_pending_sale ref reason edb
        = (edb, Inl (ValueError ''Non-pending sale cannot be cancelled''))"
    by (simp add: cancel_pending_sale_def)
next
  assume a: "get_booking db booking_id = Inr (t, b)
        \<and> get_package db (bk_package_id b) = Inr package"
  from a get_booking_Inr obtain p
    where l: "locate_booking (travelers db) booking_id = Some p"
      and b: "b = booking_at (travelers db) p"
    by blast
  from a b have g: "get_package db (bk_package_id (booking_at (travelers db) p)) = Inr package"
    by simp
  from cancel_booking_success [OF l g]
  show "\<exists>db' b'. cancel_booking booking_id db = (db', Inr b') \<and> bk_status b' = ''cancelled''"
    by simp
qed

theorem cancel_transition_legality_witness:
  "get_sale ex_ecommerce_db ''S1'' = Inr (ex_sale ''S1'' ''delivered'')
   \<and> sale_state (ex_sale ''S1'' ''delivered'') \<noteq> ''pending''
   \<and> cancel_pending_sale ''S1'' ''no longer needed'' ex_ecommerce_db
        = (ex_ecommerce_db, Inl (ValueError ''Non-pending sale cannot be cancelled''))
   \<and> get_booking (ex_travel_db 5 [ex_booking ''completed'' [250]]) ''TAU001''
        = Inr (ex_traveler [ex_booking ''completed'' [250]], ex_booking ''completed'' [250])
   \<and> get_package (ex_travel_db 5 [ex_booking ''completed'' [250]])
         (bk_package_id (ex_booking ''completed'' [250])) = Inr (ex_package 5)
   \<and> (\<exists>db' b'. cancel_booking ''TAU001'' (ex_travel_db 5 [ex_booking ''completed'' [250]])
                  = (db', Inr b')
         \<and> bk_status b' = ''cancelled'')"
proof -
  let ?db = "ex_travel_db 5 [ex_booking ''completed'' [250]]"
  let ?b = "ex_booking ''completed'' [250]"
  have h1: "get_sale ex_ecommerce_db ''S1'' = Inr (ex_sale ''S1'' ''delivered'')"
    by (simp add: get_sale_def ex_ecommerce_db_def)
  have h2: "sale_state (ex_sale ''S1'' ''delivered'') \<noteq> ''pending''"
    by (simp add: ex_sale_def)
  have h3: "get_booking ?db ''TAU001'' = Inr (ex_traveler [?b], ?b)"
    by (rule ex_get_booking)
  have h4: "get_package ?db (bk_package_id ?b) = Inr (ex_package 5)"
    by (simp add: ex_booking_def ex_get_package)
  from cancel_transition_legality
         [of ex_ecommerce_db "''S1''" "ex_sale ''S1'' ''delivered''" "''no longer needed''"
             ?db "''TAU001''" "ex_traveler [?b]" ?b "ex_package 5"]
       h1 h2 h3 h4
  show ?thesis by simp
qed

section \<open>Properties of the bank tools\<close>

subsection \<open>Rounding and identifiers\<close>

lemma round_half_even_of_int: "round_half_even (of_int k) = k"
  by (simp add: round_half_even_def)

lemma round2_cents: "round2 (of_int k / 100) = of_int k / 100"
  by (simp add: round2_def round_half_even_of_int)






lemma Transaction_init_ok:
  "tx_type t = ''transfer'' \<or> tx_type t = ''payment'' \<Longrightarrow>
   tx_direction t = ''debit'' \<or> tx_direction t = ''credit'' \<Longrightarrow>
   tx_method t \<in> set TransactionMethod \<Longrightarrow>
   tx_status t = ''posted'' \<Longrightarrow> Transaction_init t = Inr t"
  by (auto simp: Transaction_init_def TransactionType_def TransactionDirection_def
        TransactionStatus_def)

lemma member_Internal: "''Internal'' \<in> set TransactionMethod"
  by (simp add: TransactionMethod_def)

lemma not_member_Check: "''Check'' \<notin> set TransactionMethod"
  by (simp add: TransactionMethod_def)

subsection \<open>What a successful internal transfer does\<close>


lemma whole_cents_obtain:
  assumes "whole_cents x"
  obtains k :: int where "x = of_int k / 100"
  using assms unfolding whole_cents_def round2_def by metis

lemma whole_cents_add: "whole_cents x \<Longrightarrow> whole_cents y \<Longrightarrow> whole_cents (x + y)"
proof -
  assume "whole_cents x" and "whole_cents y"
  then obtain k l :: int where "x = of_int k / 100" and "y = of_int l / 100"
    by (metis whole_cents_obtain)
  then have "x + y = of_int (k + l) / 100"
    by (simp add: add_divide_distrib)
  then show ?thesis
    unfolding whole_cents_def by (simp only: round2_cents)
qed






subsection \<open>Evaluating the tools on the concrete database\<close>





subsection \<open>Atomicity and identifiers\<close>



subsection \<open>The internal transfer of 100.00\<close>




subsection \<open>Transfer from an account to itself\<close>




subsection \<open>The orchestrator loop\<close>











subsection \<open>READ and GENERIC tools leave the database as it is\<close>










end
